theory Spec2Isabelle
  imports Complex_Main
begin

section \<open>The TCN autoencoder of \<^verbatim>\<open>tcnae.py\<close>\<close>

text \<open>
  The class \<^verbatim>\<open>TCNAE\<close> wires layers of the Keras functional API into one graph, compiles
  it, trains it and scores reconstructions with numpy. Keras and the \<^verbatim>\<open>tcn\<close> package are
  libraries outside the repository: the graph the class describes is modelled as data
  (every constructor call with its arguments), and what the library does with it
  (building, training, the forward pass) is a parameter of the model, a record of three
  functions that may fail and that carry the mutable library object along.
\<close>

subsection \<open>Python values and exceptions\<close>

text \<open>
  The \<^verbatim>\<open>loss\<close> argument is any Python object; the ones that matter here are a string
  (the name of a loss) and tuples.
\<close>

datatype pyval = PNone | PStr string | PTuple "pyval list"

datatype error =
    AttributeError
  | IndexError
  | ValueError
  | AxisError
  | KerasError string

subsection \<open>The symbolic Keras graph\<close>

datatype pooler = AveragePooling1D | MaxPooling1D

datatype layer =
    TCN (tcn_nb_filters: int) (tcn_kernel_size: int) (tcn_nb_stacks: int)
        (tcn_dilations: "int list") (tcn_padding: string) (tcn_use_skip_connections: bool)
        (tcn_dropout_rate: real) (tcn_return_sequences: bool)
        (tcn_kernel_initializer: string) (tcn_name: string)
  | Conv1D (conv_filters: int) (conv_kernel_size: int) (conv_activation: string)
        (conv_padding: string)
  | Pooling1D (pool_class: pooler) (pool_size: int) (pool_strides: "int option")
        (pool_padding: string) (pool_data_format: string)
  | Activation string
  | UpSampling1D int
  | Dense (dense_units: int) (dense_activation: string)

text \<open>
  A symbolic tensor is the input placeholder or a layer applied to a tensor.
  \<^verbatim>\<open>None\<close> in a batch shape is a dimension left open.
\<close>

datatype tensor =
    Input (batch_shape: "nat option list")
  | Apply layer tensor

datatype optimizer =
    Adam (adam_learning_rate: real) (adam_beta_1: real) (adam_beta_2: real)
         (adam_epsilon: real) (adam_amsgrad: bool)

text \<open>\<^verbatim>\<open>Model(inputs=[i], outputs=[o])\<close> followed by \<^verbatim>\<open>compile(loss=, optimizer=, metrics=)\<close>.\<close>

record keras_model =
  km_inputs :: "tensor list"
  km_outputs :: "tensor list"
  km_loss :: pyval
  km_optimizer :: optimizer
  km_metrics :: "pyval list"

subsection \<open>numpy arrays\<close>

text \<open>
  The entries of an array are floating-point numbers: a finite value, one of the two
  infinities, or NaN. Finite arithmetic is exact in the model (rounding and overflow to
  an infinity are left out; neither changes a sign); the infinities and NaN follow
  IEEE 754, so NaN spreads through every operation and the difference of equal
  infinities is NaN.
\<close>

datatype npfloat = Finite real | PosInf | NegInf | NaN

text \<open>Python's \<^verbatim>\<open>v >= 0\<close> and \<^verbatim>\<open>v < 0\<close>: both are false on NaN.\<close>

fun fl_nonneg :: "npfloat \<Rightarrow> bool" where
  "fl_nonneg (Finite x) = (0 \<le> x)"
| "fl_nonneg PosInf = True"
| "fl_nonneg NegInf = False"
| "fl_nonneg NaN = False"

fun fl_negative :: "npfloat \<Rightarrow> bool" where
  "fl_negative (Finite x) = (x < 0)"
| "fl_negative PosInf = False"
| "fl_negative NegInf = True"
| "fl_negative NaN = False"

fun is_finite :: "npfloat \<Rightarrow> bool" where
  "is_finite (Finite x) = True"
| "is_finite _ = False"

fun fl_add :: "npfloat \<Rightarrow> npfloat \<Rightarrow> npfloat" where
  "fl_add NaN _ = NaN"
| "fl_add _ NaN = NaN"
| "fl_add (Finite x) (Finite y) = Finite (x + y)"
| "fl_add PosInf NegInf = NaN"
| "fl_add NegInf PosInf = NaN"
| "fl_add PosInf _ = PosInf"
| "fl_add _ PosInf = PosInf"
| "fl_add NegInf _ = NegInf"
| "fl_add _ NegInf = NegInf"

fun fl_neg :: "npfloat \<Rightarrow> npfloat" where
  "fl_neg (Finite x) = Finite (- x)"
| "fl_neg PosInf = NegInf"
| "fl_neg NegInf = PosInf"
| "fl_neg NaN = NaN"

definition fl_sub :: "npfloat \<Rightarrow> npfloat \<Rightarrow> npfloat" where
  "fl_sub x y = fl_add x (fl_neg y)"

text \<open>\<^verbatim>\<open>numpy.square\<close> on one entry.\<close>

fun fl_square :: "npfloat \<Rightarrow> npfloat" where
  "fl_square (Finite x) = Finite (x * x)"
| "fl_square PosInf = PosInf"
| "fl_square NegInf = PosInf"
| "fl_square NaN = NaN"

text \<open>The sum of a run of entries, as \<^verbatim>\<open>numpy.add.reduce\<close> starts it from 0.\<close>

definition fl_sum :: "npfloat list \<Rightarrow> npfloat" where
  "fl_sum xs = foldr fl_add xs (Finite 0)"

text \<open>A sum divided by the number of entries it ran over: 0 / 0 is NaN.\<close>

fun fl_div_count :: "npfloat \<Rightarrow> nat \<Rightarrow> npfloat" where
  "fl_div_count NaN n = NaN"
| "fl_div_count PosInf n = PosInf"
| "fl_div_count NegInf n = NegInf"
| "fl_div_count (Finite x) n =
     (if n = 0 then (if x = 0 then NaN else if 0 < x then PosInf else NegInf)
      else Finite (x / real n))"

text \<open>An array is its shape and its entries in row-major order.\<close>

record ndarray =
  shape :: "nat list"
  data :: "npfloat list"

text \<open>An array of finite entries, for writing concrete arrays down.\<close>

definition arr :: "nat list \<Rightarrow> real list \<Rightarrow> ndarray" where
  "arr s xs = \<lparr>shape = s, data = map Finite xs\<rparr>"

definition wf_array :: "ndarray \<Rightarrow> bool" where
  "wf_array a \<longleftrightarrow> length (data a) = prod_list (shape a)"

subsection \<open>The library as a parameter\<close>

datatype callback =
    EarlyStopping (es_monitor: string) (es_patience: int) (es_min_delta: real)
                  (es_restore_best_weights: bool)

text \<open>The arguments of \<^verbatim>\<open>self.model.fit(...)\<close>, lines 154-161.\<close>

record fit_call =
  fc_x :: ndarray
  fc_y :: ndarray
  fc_batch_size :: int
  fc_epochs :: int
  fc_validation_data :: "ndarray \<times> ndarray"
  fc_shuffle :: bool
  fc_callbacks :: "callback list option"
  fc_verbose :: int

text \<open>
  \<open>'m\<close> is the library's model object (graph, weights, caches).
  \<^item> \<open>K_build\<close>: \<^verbatim>\<open>clear_session\<close>, the layer constructors, \<^verbatim>\<open>Model\<close>, \<^verbatim>\<open>compile\<close> and
    \<^verbatim>\<open>summary\<close> (the second argument says whether the summary is printed); it raises
    on hyperparameters the library refuses.
  \<^item> \<open>K_fit\<close>: \<^verbatim>\<open>Model.fit\<close>; the object is mutated in place, also when it raises.
  \<^item> \<open>K_predict\<close>: \<^verbatim>\<open>Model.predict\<close>; it returns the reconstruction, or raises, and hands
    back the object, which the library is free to touch.
\<close>

record 'm keras =
  K_build :: "keras_model \<Rightarrow> bool \<Rightarrow> error + 'm"
  K_fit :: "'m \<Rightarrow> fit_call \<Rightarrow> error option \<times> 'm"
  K_predict :: "'m \<Rightarrow> ndarray \<Rightarrow> (error + ndarray) \<times> 'm"

subsection \<open>The class \<^verbatim>\<open>TCNAE\<close>\<close>

text \<open>The arguments of \<^verbatim>\<open>__init__\<close>, with their defaults in \<open>default_args\<close>.\<close>

record init_args =
  arg_ts_dimension :: int
  arg_dilations :: "int list"
  arg_nb_filters :: int
  arg_kernel_size :: int
  arg_nb_stacks :: int
  arg_padding :: string
  arg_dropout_rate :: real
  arg_filters_conv1d :: int
  arg_activation_conv1d :: string
  arg_latent_sample_rate :: int
  arg_pooler :: pooler
  arg_learning_rate :: real
  arg_conv_kernel_init :: string
  arg_loss :: pyval
  arg_use_early_stopping :: bool
  arg_verbose :: int

definition default_args :: init_args where
  "default_args = \<lparr>
     arg_ts_dimension = 1,
     arg_dilations = [1, 2, 4, 8, 16],
     arg_nb_filters = 20,
     arg_kernel_size = 20,
     arg_nb_stacks = 1,
     arg_padding = ''same'',
     arg_dropout_rate = 0,
     arg_filters_conv1d = 8,
     arg_activation_conv1d = ''linear'',
     arg_latent_sample_rate = 42,
     arg_pooler = AveragePooling1D,
     arg_learning_rate = 1 / 1000,
     arg_conv_kernel_init = ''glorot_normal'',
     arg_loss = PStr ''mean_squared_error'',
     arg_use_early_stopping = False,
     arg_verbose = 1 \<rparr>"

text \<open>The attributes of an instance. \<open>model\<close> is the class attribute, \<^verbatim>\<open>None\<close> at first.\<close>

record 'm tcnae =
  ts_dimension :: int
  dilations :: "int list"
  nb_filters :: int
  kernel_size :: int
  nb_stacks :: int
  padding :: string
  dropout_rate :: real
  filters_conv1d :: int
  activation_conv1d :: string
  latent_sample_rate :: int
  pooler :: pooler
  learning_rate :: real
  conv_kernel_init :: string
  loss :: pyval
  use_early_stopping :: bool
  model :: "'m option"

text \<open>
  Lines 109-139 of \<^verbatim>\<open>build_model\<close>: the graph and the compile arguments, as the
  constructor calls state them.
\<close>

definition build_graph :: "'m tcnae \<Rightarrow> keras_model" where
  "build_graph self =
    (let sampling_factor = latent_sample_rate self;
         i = Input [None, Some 128, Some 1];
         tcn_enc = Apply (TCN (nb_filters self) (kernel_size self) (nb_stacks self)
                     (dilations self) (padding self) True (dropout_rate self) True
                     (conv_kernel_init self) ''tcn-enc'') i;
         enc_flat = Apply (Conv1D (filters_conv1d self) 1 (activation_conv1d self)
                     (padding self)) tcn_enc;
         enc_pooled = Apply (Pooling1D (pooler self) sampling_factor None ''valid''
                     ''channels_last'') enc_flat;
         enc_out = Apply (Activation ''linear'') enc_pooled;
         dec_upsample = Apply (UpSampling1D sampling_factor) enc_out;
         dec_reconstructed = Apply (TCN (nb_filters self) (kernel_size self) (nb_stacks self)
                     (dilations self) (padding self) True (dropout_rate self) True
                     (conv_kernel_init self) ''tcn-dec'') dec_upsample;
         out = Apply (Dense (ts_dimension self) ''linear'') dec_reconstructed;
         adam = Adam (learning_rate self) (9 / 10) (999 / 1000) (1 / 10 ^ 8) True
     in \<lparr> km_inputs = [i], km_outputs = [out], km_loss = loss self,
          km_optimizer = adam, km_metrics = [loss self] \<rparr>)"

text \<open>
  \<^verbatim>\<open>build_model\<close>: the library builds and compiles the graph (printing the summary when
  \<^verbatim>\<open>verbose > 1\<close>); if it raises, \<^verbatim>\<open>self.model\<close> is not assigned.
\<close>

definition build_model :: "'m keras \<Rightarrow> 'm tcnae \<Rightarrow> int \<Rightarrow> error + 'm tcnae" where
  "build_model K self verbose =
    (case K_build K (build_graph self) (verbose > 1) of
       Inl e \<Rightarrow> Inl e
     | Inr m \<Rightarrow> Inr (self\<lparr>model := Some m\<rparr>))"

text \<open>
  \<^verbatim>\<open>__init__\<close>, lines 66-84: the attributes are assigned (\<open>init_attrs\<close>), then the model
  is built. Line 79 is \<^verbatim>\<open>self.loss = loss,\<close> with a trailing comma: the attribute is the
  tuple \<^verbatim>\<open>(loss,)\<close>.
\<close>

definition init_attrs :: "init_args \<Rightarrow> 'm tcnae" where
  "init_attrs a =
      \<lparr> ts_dimension = arg_ts_dimension a,
        dilations = arg_dilations a,
        nb_filters = arg_nb_filters a,
        kernel_size = arg_kernel_size a,
        nb_stacks = arg_nb_stacks a,
        padding = arg_padding a,
        dropout_rate = arg_dropout_rate a,
        filters_conv1d = arg_filters_conv1d a,
        activation_conv1d = arg_activation_conv1d a,
        latent_sample_rate = arg_latent_sample_rate a,
        pooler = arg_pooler a,
        learning_rate = arg_learning_rate a,
        conv_kernel_init = arg_conv_kernel_init a,
        loss = PTuple [arg_loss a],
        use_early_stopping = arg_use_early_stopping a,
        model = None \<rparr>"

definition init :: "'m keras \<Rightarrow> init_args \<Rightarrow> error + 'm tcnae" where
  "init K a = build_model K (init_attrs a) (arg_verbose a)"

text \<open>
  The shape of the input placeholder of a model with one input, and the number of units
  of the dense layer that ends a model with one output.
\<close>

definition output_units :: "keras_model \<Rightarrow> int option" where
  "output_units g = (case km_outputs g of [Apply (Dense n _) _] \<Rightarrow> Some n | _ \<Rightarrow> None)"


definition input_shape :: "keras_model \<Rightarrow> nat option list" where
  "input_shape g = (case km_inputs g of [Input s] \<Rightarrow> s | _ \<Rightarrow> [])"

subsection \<open>The numpy operations of \<^verbatim>\<open>predict\<close>\<close>

text \<open>\<open>rows d n xs\<close> cuts the first \<open>d * n\<close> entries of \<open>xs\<close> into \<open>d\<close> runs of \<open>n\<close>.\<close>

definition rows :: "nat \<Rightarrow> nat \<Rightarrow> 'a list \<Rightarrow> 'a list list" where
  "rows d n xs = map (\<lambda>i. take n (drop (i * n) xs)) [0..<d]"

text \<open>\<^verbatim>\<open>a.shape[i]\<close> for \<open>i \<ge> 0\<close>: a tuple index out of range raises.\<close>

definition shape_at :: "ndarray \<Rightarrow> nat \<Rightarrow> error + nat" where
  "shape_at a i = (if i < length (shape a) then Inr (shape a ! i) else Inl IndexError)"

text \<open>
  \<^verbatim>\<open>numpy.pad(a, pad_width, 'constant')\<close> with one \<^verbatim>\<open>(before, after)\<close> pair for each axis:
  zeros are put before and after the entries along every axis. A pad width that has not
  one pair for each axis, or that has a negative number, raises \<^verbatim>\<open>ValueError\<close>.
\<close>

definition padded_shape :: "nat list \<Rightarrow> (nat \<times> nat) list \<Rightarrow> nat list" where
  "padded_shape ds ps = map2 (\<lambda>d (b, a). b + d + a) ds ps"

fun pad_axes :: "nat list \<Rightarrow> (nat \<times> nat) list \<Rightarrow> npfloat list \<Rightarrow> npfloat list" where
  "pad_axes (d # ds) ((b, a) # ps) xs =
     (let inner = prod_list (padded_shape ds ps)
      in replicate (b * inner) (Finite 0)
         @ concat (map (pad_axes ds ps) (rows d (prod_list ds) xs))
         @ replicate (a * inner) (Finite 0))"
| "pad_axes _ _ xs = xs"

definition numpy_pad :: "ndarray \<Rightarrow> (int \<times> int) list \<Rightarrow> error + ndarray" where
  "numpy_pad a pad_width =
     (if length pad_width \<noteq> length (shape a) then Inl ValueError
      else if list_ex (\<lambda>(b, a). b < 0 \<or> a < 0) pad_width then Inl ValueError
      else let ps = map (\<lambda>(b, a). (nat b, nat a)) pad_width
           in Inr \<lparr> shape = padded_shape (shape a) ps,
                    data = pad_axes (shape a) ps (data a) \<rparr>)"

text \<open>
  Broadcasting: the shorter shape gets leading ones, then two lengths of an axis agree
  when they are equal or one of them is 1. An entry of the result at a multi-index is
  read from an operand at the same index, with 0 along the axes where the operand has
  length 1. The arrays numpy hands out hold as many entries as their shape says
  (\<open>wf_array\<close>); on those every read below is in range.
\<close>

definition lpad :: "nat \<Rightarrow> nat list \<Rightarrow> nat list" where
  "lpad n s = replicate (n - length s) 1 @ s"

definition bdim :: "nat \<Rightarrow> nat \<Rightarrow> nat option" where
  "bdim a b = (if a = b then Some a else if a = 1 then Some b
               else if b = 1 then Some a else None)"

definition broadcast_shapes :: "nat list \<Rightarrow> nat list \<Rightarrow> nat list option" where
  "broadcast_shapes s1 s2 =
     (let n = max (length s1) (length s2);
          ds = map2 bdim (lpad n s1) (lpad n s2)
      in if None \<in> set ds then None else Some (map the ds))"

fun indices :: "nat list \<Rightarrow> nat list list" where
  "indices [] = [[]]"
| "indices (d # ds) = concat (map (\<lambda>i. map ((#) i) (indices ds)) [0..<d])"

definition offset :: "nat list \<Rightarrow> nat list \<Rightarrow> nat" where
  "offset s idx = foldl (\<lambda>acc (d, i). acc * d + (if d = 1 then 0 else i)) 0 (zip s idx)"

definition numpy_subtract :: "ndarray \<Rightarrow> ndarray \<Rightarrow> error + ndarray" where
  "numpy_subtract a b =
     (case broadcast_shapes (shape a) (shape b) of
        None \<Rightarrow> Inl ValueError
      | Some s \<Rightarrow>
          let sa = lpad (length s) (shape a); sb = lpad (length s) (shape b)
          in Inr \<lparr> shape = s,
                   data = map (\<lambda>idx. fl_sub (data a ! offset sa idx) (data b ! offset sb idx))
                              (indices s) \<rparr>)"

text \<open>\<^verbatim>\<open>a.squeeze()\<close> drops every axis of length 1; the entries stay as they are.\<close>

definition squeeze :: "ndarray \<Rightarrow> ndarray" where
  "squeeze a = a\<lparr>shape := filter (\<lambda>d. d \<noteq> 1) (shape a)\<rparr>"

definition numpy_square :: "ndarray \<Rightarrow> ndarray" where
  "numpy_square a = a\<lparr>data := map fl_square (data a)\<rparr>"

text \<open>
  \<^verbatim>\<open>numpy.mean(a, axis=-1)\<close>: the mean along the last axis, the sum of each run divided
  by its length. An array with no axis has no last one (\<^verbatim>\<open>AxisError\<close>). Along an axis
  of length 0 every sum is 0 and numpy divides 0 by 0: it warns and returns NaN there.
\<close>

definition numpy_mean_last :: "ndarray \<Rightarrow> error + ndarray" where
  "numpy_mean_last a =
     (if shape a = [] then Inl AxisError
      else let n = last (shape a); outer = butlast (shape a)
           in Inr \<lparr> shape = outer,
                    data = map (\<lambda>r. fl_div_count (fl_sum r) n)
                               (rows (prod_list outer) n (data a)) \<rparr>)"

subsection \<open>\<^verbatim>\<open>fit\<close>, \<^verbatim>\<open>predict_validation\<close> and \<^verbatim>\<open>predict\<close>\<close>

text \<open>
  \<^verbatim>\<open>fit\<close>, lines 144-163. The two prints and the clock are left out. The call of
  \<^verbatim>\<open>self.model.fit\<close> gets the arguments of \<open>fit_args\<close>; the library trains the model
  object in place.
\<close>

definition fit_args ::
  "'m tcnae \<Rightarrow> ndarray \<Rightarrow> ndarray \<Rightarrow> int \<Rightarrow> int \<Rightarrow> int \<Rightarrow> fit_call" where
  "fit_args self X_train X_valid batch_size epochs verbose =
     (let my_callbacks =
            (if use_early_stopping self
             then Some [EarlyStopping ''val_loss'' 2 (1 / 10 ^ 4) True]
             else None);
          keras_verbose = (if verbose > 0 then 2 else 0)
      in \<lparr> fc_x = X_train, fc_y = X_train,
           fc_batch_size = batch_size,
           fc_epochs = epochs,
           fc_validation_data = (X_valid, X_valid),
           fc_shuffle = True,
           fc_callbacks = my_callbacks,
           fc_verbose = keras_verbose \<rparr>)"

definition fit ::
  "'m keras \<Rightarrow> 'm tcnae \<Rightarrow> ndarray \<Rightarrow> ndarray \<Rightarrow> int \<Rightarrow> int \<Rightarrow> int
     \<Rightarrow> error option \<times> 'm tcnae" where
  "fit K self X_train X_valid batch_size epochs verbose =
     (case model self of
        None \<Rightarrow> (Some AttributeError, self)
      | Some m \<Rightarrow>
          (case K_fit K m (fit_args self X_train X_valid batch_size epochs verbose) of
             (r, m') \<Rightarrow> (r, self\<lparr>model := Some m'\<rparr>)))"

text \<open>
  \<^verbatim>\<open>predict_validation\<close>, lines 165-172, and \<^verbatim>\<open>predict\<close>, lines 174-181, each written
  out from its own lines. The result is the returned array or the exception, with the
  instance after the call.
\<close>

definition predict_validation ::
  "'m keras \<Rightarrow> 'm tcnae \<Rightarrow> ndarray \<Rightarrow> (error + ndarray) \<times> 'm tcnae" where
  "predict_validation K self validation_X =
     (case model self of
        None \<Rightarrow> (Inl AttributeError, self)
      | Some m \<Rightarrow>
          (case K_predict K m validation_X of
             (r, m') \<Rightarrow>
               (case r of
                  Inl e \<Rightarrow> Inl e
                | Inr X_rec \<Rightarrow>
                    (case shape_at validation_X 1 of
                       Inl e \<Rightarrow> Inl e
                     | Inr t \<Rightarrow>
                    (case shape_at X_rec 1 of
                       Inl e \<Rightarrow> Inl e
                     | Inr t' \<Rightarrow>
                    (case numpy_pad X_rec [(0, 0), (0, int t - int t'), (0, 0)] of
                       Inl e \<Rightarrow> Inl e
                     | Inr X_rec \<Rightarrow>
                    (case numpy_subtract X_rec validation_X of
                       Inl e \<Rightarrow> Inl e
                     | Inr d \<Rightarrow>
                         let E_rec = squeeze d;
                             mse = numpy_mean_last (numpy_square E_rec)
                         in mse)))),
                self\<lparr>model := Some m'\<rparr>)))"

definition predict ::
  "'m keras \<Rightarrow> 'm tcnae \<Rightarrow> ndarray \<Rightarrow> (error + ndarray) \<times> 'm tcnae" where
  "predict K self test_X =
     (case model self of
        None \<Rightarrow> (Inl AttributeError, self)
      | Some m \<Rightarrow>
          (case K_predict K m test_X of
             (r, m') \<Rightarrow>
               (case r of
                  Inl e \<Rightarrow> Inl e
                | Inr X_rec \<Rightarrow>
                    (case shape_at test_X 1 of
                       Inl e \<Rightarrow> Inl e
                     | Inr t \<Rightarrow>
                    (case shape_at X_rec 1 of
                       Inl e \<Rightarrow> Inl e
                     | Inr t' \<Rightarrow>
                    (case numpy_pad X_rec [(0, 0), (0, int t - int t'), (0, 0)] of
                       Inl e \<Rightarrow> Inl e
                     | Inr X_rec \<Rightarrow>
                    (case numpy_subtract X_rec test_X of
                       Inl e \<Rightarrow> Inl e
                     | Inr d \<Rightarrow>
                         let E_rec = squeeze d;
                             mse = numpy_mean_last (numpy_square E_rec)
                         in mse)))),
                self\<lparr>model := Some m'\<rparr>)))"

text \<open>
  Lines 178-181 (and 169-172) on their own: what both methods do with the reconstruction
  the library returned.
\<close>

definition reconstruction_error :: "ndarray \<Rightarrow> ndarray \<Rightarrow> error + ndarray" where
  "reconstruction_error X_rec X =
     (case shape_at X 1 of
        Inl e \<Rightarrow> Inl e
      | Inr t \<Rightarrow>
     (case shape_at X_rec 1 of
        Inl e \<Rightarrow> Inl e
      | Inr t' \<Rightarrow>
     (case numpy_pad X_rec [(0, 0), (0, int t - int t'), (0, 0)] of
        Inl e \<Rightarrow> Inl e
      | Inr P \<Rightarrow>
     (case numpy_subtract P X of
        Inl e \<Rightarrow> Inl e
      | Inr d \<Rightarrow> numpy_mean_last (numpy_square (squeeze d))))))"

subsection \<open>A small library instance for concrete runs\<close>

text \<open>
  A stand-in for the library, used to run the class on concrete arrays: its model object
  is a stored reconstruction (standing for the weights) with a count of the forward
  passes made. Building stores 126 zeros, what the default graph would output for one
  window; training stores the target; a forward pass returns the stored array and
  counts.
\<close>

definition toy_keras :: "(ndarray \<times> nat) keras" where
  "toy_keras =
     \<lparr> K_build = (\<lambda>g v. Inr (\<lparr>shape = [1, 126, 1], data = replicate 126 (Finite 0)\<rparr>, 0)),
       K_fit = (\<lambda>m c. (None, (fc_y c, snd m))),
       K_predict = (\<lambda>m x. (Inr (fst m), (fst m, Suc (snd m)))) \<rparr>"

definition toy_self :: "ndarray \<Rightarrow> (ndarray \<times> nat) tcnae" where
  "toy_self r = (init_attrs default_args)\<lparr>model := Some (r, 0)\<rparr>"

section \<open>Helper lemmas\<close>

lemma pyval_tuple_neq: "PTuple [x] \<noteq> x"
proof
  assume "PTuple [x] = x"
  then have "size (PTuple [x]) = size x" by simp
  then show False by simp
qed

lemma predict_alt:
  "predict K self X =
     (case model self of
        None \<Rightarrow> (Inl AttributeError, self)
      | Some m \<Rightarrow>
          (case K_predict K m X of
             (r, m') \<Rightarrow>
               ((case r of Inl e \<Rightarrow> Inl e | Inr X_rec \<Rightarrow> reconstruction_error X_rec X),
                self\<lparr>model := Some m'\<rparr>)))"
  by (simp add: predict_def reconstruction_error_def split: option.splits prod.splits sum.splits)

lemma length_rows: "length (rows d n xs) = d"
  by (simp add: rows_def)

lemma length_row:
  assumes "i < d" "length xs = d * n"
  shows "length (take n (drop (i * n) xs)) = n"
proof -
  have "Suc i \<le> d" using assms by simp
  then have "Suc i * n \<le> d * n" by (rule mult_le_mono1)
  then show ?thesis using assms by simp
qed

lemma length_concat_const:
  "(\<And>x. x \<in> set xs \<Longrightarrow> length (f x) = c) \<Longrightarrow> length (concat (map f xs)) = length xs * c"
  by (induction xs) auto

lemma length_pad_axes:
  "length ps = length ds \<Longrightarrow> length xs = prod_list ds
     \<Longrightarrow> length (pad_axes ds ps xs) = prod_list (padded_shape ds ps)"
proof (induction ds ps xs rule: pad_axes.induct)
  case (1 d ds b a ps xs)
  let ?inner = "prod_list (padded_shape ds ps)"
  have each: "length (pad_axes ds ps r) = ?inner" if "r \<in> set (rows d (prod_list ds) xs)" for r
  proof -
    from that obtain i where i: "i < d" and r: "r = take (prod_list ds) (drop (i * prod_list ds) xs)"
      by (auto simp: rows_def)
    have "length r = prod_list ds"
      unfolding r using i "1.prems"(2) by (intro length_row[of i d]) simp_all
    with "1.IH"[OF refl that] "1.prems"(1) show ?thesis by simp
  qed
  have "length (concat (map (pad_axes ds ps) (rows d (prod_list ds) xs))) = d * ?inner"
    using length_concat_const[of "rows d (prod_list ds) xs" "pad_axes ds ps" ?inner] each
    by (simp add: length_rows)
  moreover have "padded_shape (d # ds) ((b, a) # ps) = (b + d + a) # padded_shape ds ps"
    by (simp add: padded_shape_def)
  ultimately show ?case
    by (simp add: Let_def distrib_right)
qed (simp_all add: padded_shape_def)

lemma predict_validation_same: "predict_validation K self X = predict K self X"
  by (simp add: predict_def predict_validation_def)

lemma numpy_pad_time:
  assumes "shape X_rec = [b, t', c]" "t' \<le> t"
  shows "\<exists>P. numpy_pad X_rec [(0, 0), (0, int t - int t'), (0, 0)] = Inr P
           \<and> shape P = [b, t, c] \<and> (wf_array X_rec \<longrightarrow> wf_array P)"
proof -
  let ?ps = "[(0, 0), (0, t - t'), (0, 0)] :: (nat \<times> nat) list"
  let ?P = "\<lparr>shape = padded_shape (shape X_rec) ?ps, data = pad_axes (shape X_rec) ?ps (data X_rec)\<rparr>"
  have nat: "nat (int t - int t') = t - t'" by simp
  have pad: "numpy_pad X_rec [(0, 0), (0, int t - int t'), (0, 0)] = Inr ?P"
    using assms by (simp add: numpy_pad_def nat)
  have sh: "padded_shape (shape X_rec) ?ps = [b, t, c]"
    using assms by (simp add: padded_shape_def)
  have "wf_array ?P" if "wf_array X_rec"
  proof -
    have "length (pad_axes (shape X_rec) ?ps (data X_rec)) = prod_list (padded_shape (shape X_rec) ?ps)"
      using that assms(1) by (intro length_pad_axes) (simp_all add: wf_array_def)
    then show ?thesis by (simp add: wf_array_def)
  qed
  with pad sh show ?thesis by simp
qed




lemma fl_square_ok: "fl_nonneg (fl_square v) \<or> fl_square v = NaN"
  by (cases v) simp_all

lemma fl_add_ok:
  assumes "fl_nonneg a \<or> a = NaN" "fl_nonneg b \<or> b = NaN"
  shows "fl_nonneg (fl_add a b) \<or> fl_add a b = NaN"
  using assms by (cases a; cases b) simp_all

lemma fl_sum_ok:
  assumes "\<And>v. v \<in> set xs \<Longrightarrow> fl_nonneg v \<or> v = NaN"
  shows "fl_nonneg (fl_sum xs) \<or> fl_sum xs = NaN"
  using assms
proof (induction xs)
  case Nil
  then show ?case by (simp add: fl_sum_def)
next
  case (Cons x xs)
  have "fl_nonneg (fl_sum xs) \<or> fl_sum xs = NaN"
    using Cons by simp
  moreover have "fl_nonneg x \<or> x = NaN"
    using Cons.prems by simp
  ultimately have "fl_nonneg (fl_add x (fl_sum xs)) \<or> fl_add x (fl_sum xs) = NaN"
    by (intro fl_add_ok)
  then show ?case by (simp add: fl_sum_def)
qed

lemma fl_div_count_ok:
  assumes "fl_nonneg v \<or> v = NaN"
  shows "fl_nonneg (fl_div_count v n) \<or> fl_div_count v n = NaN"
  using assms by (cases v) auto

lemma in_set_row: "w \<in> set (take n (drop k xs)) \<Longrightarrow> w \<in> set xs"
  by (meson in_set_dropD in_set_takeD)

lemma mean_square_ok:
  assumes "numpy_mean_last (numpy_square a) = Inr r" and "v \<in> set (data r)"
  shows "fl_nonneg v \<or> v = NaN"
proof -
  from assms obtain i where v:
    "v = fl_div_count (fl_sum (take (last (shape a)) (drop (i * last (shape a)) (map fl_square (data a)))))
           (last (shape a))"
    by (auto simp: numpy_mean_last_def numpy_square_def rows_def Let_def split: if_splits)
  have "fl_nonneg w \<or> w = NaN"
    if "w \<in> set (take (last (shape a)) (drop (i * last (shape a)) (map fl_square (data a))))" for w
  proof -
    from that have "w \<in> set (map fl_square (data a))" by (rule in_set_row)
    then show ?thesis using fl_square_ok by auto
  qed
  then show ?thesis unfolding v by (intro fl_div_count_ok fl_sum_ok)
qed

lemma fl_sum_finite:
  assumes "\<And>v. v \<in> set xs \<Longrightarrow> is_finite v \<and> fl_nonneg v"
  shows "is_finite (fl_sum xs) \<and> fl_nonneg (fl_sum xs)"
  using assms
proof (induction xs)
  case Nil
  then show ?case by (simp add: fl_sum_def)
next
  case (Cons x xs)
  have "is_finite (fl_sum xs) \<and> fl_nonneg (fl_sum xs)"
    using Cons by simp
  moreover have "is_finite x \<and> fl_nonneg x"
    using Cons.prems by simp
  ultimately have "is_finite (fl_add x (fl_sum xs)) \<and> fl_nonneg (fl_add x (fl_sum xs))"
    by (cases x; cases "fl_sum xs") simp_all
  then show ?case by (simp add: fl_sum_def)
qed

lemma mean_square_finite:
  assumes "numpy_mean_last (numpy_square a) = Inr r" and "v \<in> set (data r)"
    and "\<And>w. w \<in> set (data a) \<Longrightarrow> is_finite w" and "last (shape a) \<noteq> 0"
  shows "fl_nonneg v"
proof -
  let ?n = "last (shape a)"
  from assms(1,2) obtain i where v:
    "v = fl_div_count (fl_sum (take ?n (drop (i * ?n) (map fl_square (data a))))) ?n"
    by (auto simp: numpy_mean_last_def numpy_square_def rows_def Let_def split: if_splits)
  have "is_finite w \<and> fl_nonneg w"
    if "w \<in> set (take ?n (drop (i * ?n) (map fl_square (data a))))" for w
  proof -
    from that have "w \<in> set (map fl_square (data a))" by (rule in_set_row)
    then obtain u where u: "u \<in> set (data a)" "w = fl_square u" by auto
    from assms(3)[OF u(1)] u(2) show ?thesis by (cases u) simp_all
  qed
  then have "is_finite (fl_sum (take ?n (drop (i * ?n) (map fl_square (data a)))))
        \<and> fl_nonneg (fl_sum (take ?n (drop (i * ?n) (map fl_square (data a)))))"
    by (rule fl_sum_finite)
  then show ?thesis
    unfolding v using assms(4)
    by (cases "fl_sum (take ?n (drop (i * ?n) (map fl_square (data a))))") simp_all
qed

lemma set_pad_axes: "set (pad_axes ds ps xs) \<subseteq> insert (Finite 0) (set xs)"
proof (induction ds ps xs rule: pad_axes.induct)
  case (1 d ds b a ps xs)
  have "set (pad_axes ds ps r) \<subseteq> insert (Finite 0) (set xs)"
    if "r \<in> set (rows d (prod_list ds) xs)" for r
  proof -
    from that have "set r \<subseteq> set xs"
      by (auto simp: rows_def dest: in_set_row)
    with "1.IH"[OF refl that] show ?thesis by blast
  qed
  then show ?case by (auto simp: Let_def)
qed auto

lemma offset_bound_aux:
  "list_all2 (\<lambda>d i. d = 1 \<or> i < d) (sa :: nat list) idx
     \<Longrightarrow> foldl (\<lambda>acc (d, i). acc * d + (if d = 1 then 0 else i)) acc (zip sa idx)
         < (acc + 1) * prod_list sa"
proof (induction sa idx arbitrary: acc rule: list_all2_induct)
  case Nil
  then show ?case by simp
next
  case (Cons d sa i idx)
  let ?f = "\<lambda>acc (d, i). acc * d + (if d = 1 then 0 else i :: nat)"
  let ?acc = "acc * d + (if d = 1 then 0 else i)"
  have "?acc + 1 \<le> (acc + 1) * d"
    using Cons.hyps(1) by (auto simp: algebra_simps)
  then have le: "(?acc + 1) * prod_list sa \<le> (acc + 1) * d * prod_list sa"
    by (rule mult_le_mono1)
  have "foldl ?f acc (zip (d # sa) (i # idx)) = foldl ?f ?acc (zip sa idx)"
    by simp
  also have "\<dots> < (?acc + 1) * prod_list sa"
    by (rule Cons.IH)
  also note le
  also have "(acc + 1) * d * prod_list sa = (acc + 1) * prod_list (d # sa)"
    by (simp only: prod_list.Cons mult.assoc)
  finally show ?case .
qed

lemma indices_bound: "idx \<in> set (indices s) \<Longrightarrow> list_all2 (\<lambda>i d. i < d) idx s"
  by (induction s arbitrary: idx) auto

lemma length_lpad: "length s \<le> n \<Longrightarrow> length (lpad n s) = n"
  by (simp add: lpad_def)

lemma prod_list_lpad: "prod_list (lpad n s) = prod_list s"
  by (simp add: lpad_def)

lemma set_lpad: "set (lpad n s) \<subseteq> insert 1 (set s)"
  by (auto simp: lpad_def)

lemma bdim_Some: "bdim a b = Some d \<Longrightarrow> (a = d \<or> a = 1) \<and> (b = d \<or> b = 1)"
  by (auto simp: bdim_def split: if_splits)

lemma bdim_Some_either: "bdim a b = Some d \<Longrightarrow> d = a \<or> d = b"
  by (auto simp: bdim_def split: if_splits)

lemma broadcast_shapes_nth:
  assumes "broadcast_shapes s1 s2 = Some s"
  shows "length (lpad (length s) s1) = length s" "length (lpad (length s) s2) = length s"
    "\<And>k. k < length s \<Longrightarrow>
        bdim (lpad (length s) s1 ! k) (lpad (length s) s2 ! k) = Some (s ! k)"
proof -
  let ?n = "max (length s1) (length s2)"
  let ?A = "lpad ?n s1" and ?B = "lpad ?n s2"
  have lA: "length ?A = ?n" and lB: "length ?B = ?n"
    by (simp_all add: length_lpad)
  from assms have none: "None \<notin> set (map2 bdim ?A ?B)"
    and s: "s = map the (map2 bdim ?A ?B)"
    by (auto simp: broadcast_shapes_def Let_def split: if_splits)
  from s lA lB have ls: "length s = ?n" by simp
  show "length (lpad (length s) s1) = length s" "length (lpad (length s) s2) = length s"
    using lA lB ls by simp_all
  fix k assume k: "k < length s"
  then have "map2 bdim ?A ?B ! k \<in> set (map2 bdim ?A ?B)"
    using ls lA lB by (intro nth_mem) simp
  with none obtain d where d: "map2 bdim ?A ?B ! k = Some d"
    by (cases "map2 bdim ?A ?B ! k") auto
  moreover have "map2 bdim ?A ?B ! k = bdim (?A ! k) (?B ! k)"
    using k ls lA lB by simp
  moreover have "s ! k = the (map2 bdim ?A ?B ! k)"
    using k ls lA lB s by (metis length_map nth_map)
  ultimately show "bdim (lpad (length s) s1 ! k) (lpad (length s) s2 ! k) = Some (s ! k)"
    using ls by simp
qed

lemma offset_in_range:
  assumes "list_all2 (\<lambda>a d. a = d \<or> a = 1) sa s" and "idx \<in> set (indices s)"
  shows "offset sa idx < prod_list sa"
proof -
  from indices_bound[OF assms(2)] have idx: "list_all2 (\<lambda>i d. i < d) idx s" .
  have "list_all2 (\<lambda>d i. d = 1 \<or> i < d) sa idx"
    using assms(1) idx
    by (auto simp: list_all2_conv_all_nth)
  from offset_bound_aux[OF this, of 0] show ?thesis
    by (simp add: offset_def)
qed

lemma subtract_finite:
  assumes "numpy_subtract a b = Inr D" and "wf_array a" and "wf_array b"
    and "\<And>w. w \<in> set (data a) \<Longrightarrow> is_finite w" and "\<And>w. w \<in> set (data b) \<Longrightarrow> is_finite w"
    and "v \<in> set (data D)"
  shows "is_finite v"
proof -
  from assms(1) obtain s where s: "broadcast_shapes (shape a) (shape b) = Some s"
    and D: "D = \<lparr>shape = s,
                 data = map (\<lambda>idx. fl_sub (data a ! offset (lpad (length s) (shape a)) idx)
                                          (data b ! offset (lpad (length s) (shape b)) idx))
                            (indices s)\<rparr>"
    by (auto simp: numpy_subtract_def Let_def split: option.splits)
  from assms(6) D obtain idx where idx: "idx \<in> set (indices s)"
    and v: "v = fl_sub (data a ! offset (lpad (length s) (shape a)) idx)
                       (data b ! offset (lpad (length s) (shape b)) idx)"
    by auto
  note bs = broadcast_shapes_nth[OF s]
  have ra: "list_all2 (\<lambda>a d. a = d \<or> a = 1) (lpad (length s) (shape a)) s"
    using bs bdim_Some by (auto simp: list_all2_conv_all_nth)
  have rb: "list_all2 (\<lambda>a d. a = d \<or> a = 1) (lpad (length s) (shape b)) s"
    using bs bdim_Some by (auto simp: list_all2_conv_all_nth)
  have "offset (lpad (length s) (shape a)) idx < length (data a)"
    using offset_in_range[OF ra idx] assms(2) by (simp add: prod_list_lpad wf_array_def)
  then have fa: "is_finite (data a ! offset (lpad (length s) (shape a)) idx)"
    using assms(4) by simp
  have "offset (lpad (length s) (shape b)) idx < length (data b)"
    using offset_in_range[OF rb idx] assms(3) by (simp add: prod_list_lpad wf_array_def)
  then have fb: "is_finite (data b ! offset (lpad (length s) (shape b)) idx)"
    using assms(5) by simp
  from fa fb show ?thesis
    unfolding v fl_sub_def
    by (cases "data a ! offset (lpad (length s) (shape a)) idx";
        cases "data b ! offset (lpad (length s) (shape b)) idx") simp_all
qed

lemma subtract_nonzero:
  assumes "numpy_subtract a b = Inr D" and "0 \<notin> set (shape a)" and "0 \<notin> set (shape b)"
  shows "0 \<notin> set (shape D)"
proof
  assume "0 \<in> set (shape D)"
  from assms(1) obtain s where s: "broadcast_shapes (shape a) (shape b) = Some s"
    and D: "shape D = s"
    by (auto simp: numpy_subtract_def Let_def split: option.splits)
  note bs = broadcast_shapes_nth[OF s]
  from \<open>0 \<in> set (shape D)\<close> D obtain k where k: "k < length s" "s ! k = 0"
    by (auto simp: in_set_conv_nth)
  from bdim_Some_either[OF bs(3)[OF k(1)]] k(2)
  have "lpad (length s) (shape a) ! k = 0 \<or> lpad (length s) (shape b) ! k = 0" by auto
  moreover have "lpad (length s) (shape a) ! k \<in> set (lpad (length s) (shape a))"
    using k(1) bs(1) by (intro nth_mem) simp
  moreover have "lpad (length s) (shape b) ! k \<in> set (lpad (length s) (shape b))"
    using k(1) bs(2) by (intro nth_mem) simp
  ultimately have "0 \<in> set (lpad (length s) (shape a)) \<or> 0 \<in> set (lpad (length s) (shape b))"
    by metis
  with set_lpad[of "length s" "shape a"] set_lpad[of "length s" "shape b"] assms(2,3)
  show False by auto
qed

lemma build_graph_input_shape: "input_shape (build_graph self) = [None, Some 128, Some 1]"
  by (simp add: build_graph_def input_shape_def Let_def)

lemma numpy_pad_props:
  assumes "numpy_pad a pw = Inr P"
  shows "set (data P) \<subseteq> insert (Finite 0) (set (data a))"
    and "wf_array a \<Longrightarrow> wf_array P"
    and "0 \<notin> set (shape a) \<Longrightarrow> 0 \<notin> set (shape P)"
proof -
  let ?ps = "map (\<lambda>(b, a). (nat b, nat a)) pw"
  from assms have len: "length pw = length (shape a)"
    and P: "P = \<lparr>shape = padded_shape (shape a) ?ps, data = pad_axes (shape a) ?ps (data a)\<rparr>"
    by (auto simp: numpy_pad_def Let_def split: if_splits)
  show "set (data P) \<subseteq> insert (Finite 0) (set (data a))"
    unfolding P using set_pad_axes by simp
  show "wf_array P" if "wf_array a"
  proof -
    have "length (pad_axes (shape a) ?ps (data a)) = prod_list (padded_shape (shape a) ?ps)"
      using that len by (intro length_pad_axes) (simp_all add: wf_array_def)
    then show ?thesis by (simp add: P wf_array_def)
  qed
  show "0 \<notin> set (shape P)" if "0 \<notin> set (shape a)"
  proof
    assume "0 \<in> set (shape P)"
    then obtain d p where "(d, p) \<in> set (zip (shape a) ?ps)" "(case p of (b, a) \<Rightarrow> b + d + a) = 0"
      by (auto simp: P padded_shape_def)
    then have "d \<in> set (shape a)" "d = 0"
      by (auto dest: set_zip_leftD split: prod.splits)
    with that show False by simp
  qed
qed

section \<open>The constructor and the built model\<close>

text \<open>
  C1 says that the input placeholder of the built model has the configured window length
  as its timestep dimension and \<^verbatim>\<open>ts_dimension\<close> as its channel dimension. The code at
  \<^verbatim>\<open>ts_dimension = 2\<close>, all else default: line 110 is
  \<^verbatim>\<open>Input(batch_shape=(None, 128, 1))\<close>, so the placeholder has one channel, while the
  dense layer of line 134 that ends the same graph has \<^verbatim>\<open>ts_dimension = 2\<close> units. (For
  every instance the placeholder is \<open>(None, 128, 1)\<close>: lemma \<open>build_graph_input_shape\<close>.)
\<close>

theorem build_model_input_with_two_channels:
  "input_shape (build_graph
      (init_attrs (default_args\<lparr>arg_ts_dimension := 2\<rparr>) :: (ndarray \<times> nat) tcnae))
     = [None, Some 128, Some 1]
   \<and> output_units (build_graph
      (init_attrs (default_args\<lparr>arg_ts_dimension := 2\<rparr>) :: (ndarray \<times> nat) tcnae))
     = Some 2
   \<and> ts_dimension (init_attrs (default_args\<lparr>arg_ts_dimension := 2\<rparr>) :: (ndarray \<times> nat) tcnae)
     = 2"
  by (simp add: build_graph_def input_shape_def output_units_def init_attrs_def
        default_args_def Let_def)

text \<open>
  C8: when the constructor has returned, the \<^verbatim>\<open>loss\<close> attribute is the one-element tuple
  holding the \<^verbatim>\<open>loss\<close> argument, which is never the argument itself, and the model was
  built from a graph compiled with this tuple as its loss and as its only metric.
\<close>

theorem init_loss_is_tuple:
  assumes "init K a = Inr s"
  shows "loss s = PTuple [arg_loss a] \<and> loss s \<noteq> arg_loss a
         \<and> (\<exists>m. K_build K (build_graph (init_attrs a)) (arg_verbose a > 1) = Inr m
                \<and> model s = Some m
                \<and> km_loss (build_graph (init_attrs a :: 'm tcnae)) = loss s
                \<and> km_metrics (build_graph (init_attrs a :: 'm tcnae)) = [loss s])"
  using assms
  by (auto simp: init_def build_model_def build_graph_def init_attrs_def Let_def
        pyval_tuple_neq split: sum.splits)

theorem init_loss_is_tuple_witness:
  "\<exists>s. init toy_keras default_args = Inr s
      \<and> loss s = PTuple [PStr ''mean_squared_error'']
      \<and> loss s \<noteq> PStr ''mean_squared_error''"
proof -
  obtain s where s: "init toy_keras default_args = Inr s"
    by (simp add: init_def build_model_def toy_keras_def)
  have "arg_loss default_args = PStr ''mean_squared_error''"
    by (simp add: default_args_def)
  with init_loss_is_tuple [OF s] s show ?thesis by auto
qed

text \<open>
  C9: when the constructor has returned, the \<^verbatim>\<open>model\<close> attribute is not \<^verbatim>\<open>None\<close>: it is
  the model the library built and compiled from the graph of this instance, and every
  other attribute is as the constructor assigned it. (If the library raises while
  building, the constructor does not return.)
\<close>

theorem init_model_built:
  assumes "init (K :: 'm keras) a = Inr s"
  shows "\<exists>m. K_build K (build_graph (init_attrs a :: 'm tcnae)) (arg_verbose a > 1) = Inr m
           \<and> model s = Some m \<and> model s \<noteq> None
           \<and> s = (init_attrs a)\<lparr>model := Some m\<rparr>"
  using assms by (auto simp: init_def build_model_def split: sum.splits)

theorem init_model_built_witness:
  "init toy_keras default_args
     = Inr ((init_attrs default_args)
              \<lparr>model := Some (\<lparr>shape = [1, 126, 1], data = replicate 126 (Finite 0)\<rparr>, 0)\<rparr>)"
proof -
  obtain s where s: "init toy_keras default_args = Inr s"
    by (simp add: init_def build_model_def toy_keras_def)
  from init_model_built [OF s] s show ?thesis
    by (auto simp: toy_keras_def)
qed

section \<open>Training\<close>

text \<open>
  C10: in every call of \<^verbatim>\<open>fit\<close> the library is called with the training batch as input
  and as target, and with the validation batch paired with itself; \<^verbatim>\<open>fit\<close> takes no
  label array.
\<close>

theorem fit_target_is_input:
  "fc_x (fit_args self X_train X_valid b e v) = X_train
   \<and> fc_y (fit_args self X_train X_valid b e v) = X_train
   \<and> fc_validation_data (fit_args self X_train X_valid b e v) = (X_valid, X_valid)
   \<and> fit K self X_train X_valid b e v =
       (case model self of
          None \<Rightarrow> (Some AttributeError, self)
        | Some m \<Rightarrow>
            (case K_fit K m (fit_args self X_train X_valid b e v) of
               (r, m') \<Rightarrow> (r, self\<lparr>model := Some m'\<rparr>)))"
  by (simp add: fit_args_def fit_def Let_def)

text \<open>
  Early stopping: the class decides only whether the callback is handed to the library,
  and with which settings. When training halts and which weights are kept is decided
  inside the library's \<^verbatim>\<open>Model.fit\<close>.
\<close>

lemma fit_callbacks:
  "fc_callbacks (fit_args self X_train X_valid b e v) =
     (if use_early_stopping self
      then Some [EarlyStopping ''val_loss'' 2 (1 / 10 ^ 4) True] else None)"
  by (simp add: fit_args_def Let_def)

section \<open>Prediction\<close>

text \<open>
  C5: \<^verbatim>\<open>predict\<close> and \<^verbatim>\<open>predict_validation\<close> are the same function: on the same instance
  and array they return the same result and leave the same instance.
\<close>

theorem predict_eq_predict_validation:
  "predict K self X = predict_validation K self X"
  by (simp add: predict_def predict_validation_def)




text \<open>
  C3: when the reconstruction the library returned has three axes and is not longer
  than the input along the timesteps, the padding inside \<^verbatim>\<open>predict\<close> succeeds and the
  padded reconstruction, the array \<^verbatim>\<open>predict\<close> goes on with, has the timestep length of
  the input; the other two axes are unchanged.
\<close>

theorem padded_reconstruction_length:
  assumes "model self = Some m" and "K_predict K m X = (Inr X_rec, m')"
    and "shape X_rec = [b, t', c]" and "shape_at X 1 = Inr t" and "t' \<le> t"
  shows "\<exists>P. numpy_pad X_rec [(0, 0), (0, int (shape X ! 1) - int (shape X_rec ! 1)), (0, 0)] = Inr P
           \<and> shape P = [b, t, c] \<and> shape_at P 1 = shape_at X 1 \<and> (wf_array X_rec \<longrightarrow> wf_array P)
           \<and> fst (predict K self X) =
               (case numpy_subtract P X of
                  Inl e \<Rightarrow> Inl e
                | Inr d \<Rightarrow> numpy_mean_last (numpy_square (squeeze d)))"
proof -
  from numpy_pad_time [OF assms(3) assms(5)] obtain P
    where P: "numpy_pad X_rec [(0, 0), (0, int t - int t'), (0, 0)] = Inr P"
      "shape P = [b, t, c]" "wf_array X_rec \<longrightarrow> wf_array P" by blast
  have t: "shape X ! 1 = t" "1 < length (shape X)"
    using assms(4) by (auto simp: shape_at_def split: if_splits)
  have t': "shape X_rec ! 1 = t'" "shape_at X_rec 1 = Inr t'"
    using assms(3) by (simp_all add: shape_at_def)
  have "shape_at P 1 = shape_at X 1"
    using P(2) assms(4) by (simp add: shape_at_def)
  moreover have "fst (predict K self X) =
               (case numpy_subtract P X of
                  Inl e \<Rightarrow> Inl e
                | Inr d \<Rightarrow> numpy_mean_last (numpy_square (squeeze d)))"
    using assms(1,2,4) t' P(1) by (simp add: predict_alt reconstruction_error_def)
  ultimately show ?thesis using P t t' by simp
qed

theorem padded_reconstruction_length_witness:
  "\<exists>P. numpy_pad (arr [2, 1, 1] [5, 7]) [(0, 0), (0, 3 - 1), (0, 0)] = Inr P
       \<and> shape P = [2, 3, 1]
       \<and> shape_at P 1 = shape_at (arr [2, 3, 1] [1, 2, 3, 4, 5, 6]) 1"
proof -
  let ?R = "arr [2, 1, 1] [5, 7]"
  let ?X = "arr [2, 3, 1] [1, 2, 3, 4, 5, 6]"
  have "model (toy_self ?R) = Some (?R, 0)"
    by (simp add: toy_self_def)
  moreover have "K_predict toy_keras (?R, 0) ?X = (Inr ?R, (?R, 1))"
    by (simp add: toy_keras_def)
  moreover have "shape ?R = [2, 1, 1]" "shape_at ?X 1 = Inr 3" "(1::nat) \<le> 3"
    by (simp_all add: shape_at_def arr_def)
  ultimately show ?thesis
    using padded_reconstruction_length [where self = "toy_self ?R" and m = "(?R, 0)"
        and K = toy_keras and X = ?X and X_rec = ?R and m' = "(?R, 1)" and b = 2 and t = 3
        and c = 1 and t' = 1]
    by (auto simp: arr_def)
qed

text \<open>A reconstruction longer than the input makes the pad width negative: numpy raises.\<close>

lemma pad_longer_raises:
  assumes "shape X_rec = [b, t', c]" "shape_at X 1 = Inr t" "t < t'"
  shows "reconstruction_error X_rec X = Inl ValueError"
  using assms by (simp add: reconstruction_error_def shape_at_def numpy_pad_def)

text \<open>
  C4, as the code has it. No entry of an array returned by \<^verbatim>\<open>predict\<close> or by
  \<^verbatim>\<open>predict_validation\<close> is negative: every entry is non-negative or NaN, whatever the
  library's model object and the input are. When the input and the reconstruction hold
  finite entries only and have no axis of length 0, every entry is non-negative.
\<close>

theorem predict_error_nonneg_or_nan:
  assumes "fst (predict K self X) = Inr r \<or> fst (predict_validation K self X) = Inr r"
  shows "(\<forall>v \<in> set (data r). fl_nonneg v \<or> v = NaN)
       \<and> (\<forall>v \<in> set (data r). \<not> fl_negative v)
       \<and> (model self = Some m \<and> K_predict K m X = (Inr X_rec, m')
            \<and> wf_array X \<and> wf_array X_rec
            \<and> list_all is_finite (data X) \<and> list_all is_finite (data X_rec)
            \<and> 0 \<notin> set (shape X) \<and> 0 \<notin> set (shape X_rec)
          \<longrightarrow> (\<forall>v \<in> set (data r). fl_nonneg v))"
proof -
  from assms have run: "fst (predict K self X) = Inr r"
    by (simp add: predict_validation_same)
  then obtain R where "reconstruction_error R X = Inr r"
    by (auto simp: predict_alt split: option.splits prod.splits sum.splits)
  then obtain d where "numpy_mean_last (numpy_square (squeeze d)) = Inr r"
    by (auto simp: reconstruction_error_def split: sum.splits)
  then have ok: "fl_nonneg v \<or> v = NaN" if "v \<in> set (data r)" for v
    using that by (rule mean_square_ok)
  have notneg: "\<not> fl_negative v" if "v \<in> set (data r)" for v
    using ok [OF that] by (cases v) auto
  have fin: "fl_nonneg v"
    if h: "model self = Some m" "K_predict K m X = (Inr X_rec, m')"
      "wf_array X" "wf_array X_rec"
      "list_all is_finite (data X)" "list_all is_finite (data X_rec)"
      "0 \<notin> set (shape X)" "0 \<notin> set (shape X_rec)"
      and v: "v \<in> set (data r)" for v
  proof -
    from run h(1,2) have "reconstruction_error X_rec X = Inr r"
      by (simp add: predict_alt)
    then obtain pw P D where P: "numpy_pad X_rec pw = Inr P"
      and D: "numpy_subtract P X = Inr D"
      and r: "numpy_mean_last (numpy_square (squeeze D)) = Inr r"
      by (auto simp: reconstruction_error_def split: sum.splits)
    note pp = numpy_pad_props [OF P]
    have finP: "is_finite w" if "w \<in> set (data P)" for w
      using that pp(1) h(6) by (auto simp: list_all_iff)
    have finX: "is_finite w" if "w \<in> set (data X)" for w
      using that h(5) by (auto simp: list_all_iff)
    have finD: "is_finite w" if "w \<in> set (data (squeeze D))" for w
      using subtract_finite [OF D pp(2) [OF h(4)] h(3) finP finX] that
      by (simp add: squeeze_def)
    have nz: "0 \<notin> set (shape D)"
      using subtract_nonzero [OF D pp(3) [OF h(8)] h(7)] .
    have ne: "shape (squeeze D) \<noteq> []"
      using r by (auto simp: numpy_mean_last_def numpy_square_def split: if_splits)
    then have "last (shape (squeeze D)) \<in> set (shape (squeeze D))"
      by (rule last_in_set)
    then have "last (shape (squeeze D)) \<in> set (shape D)"
      by (simp add: squeeze_def)
    with nz have "last (shape (squeeze D)) \<noteq> 0" by metis
    from mean_square_finite [OF r v finD this] show ?thesis .
  qed
  from ok notneg fin show ?thesis by blast
qed

theorem predict_error_nonneg_or_nan_witness:
  "fst (predict toy_keras (toy_self (arr [2, 1, 1] [5, 7])) (arr [2, 3, 1] [1, 2, 3, 4, 5, 6]))
     = Inr (arr [2] [29 / 3, 70 / 3])
   \<and> list_all fl_nonneg (data (arr [2] [29 / 3, 70 / 3]))"
proof -
  let ?R = "arr [2, 1, 1] [5, 7]"
  let ?X = "arr [2, 3, 1] [1, 2, 3, 4, 5, 6]"
  have run: "fst (predict toy_keras (toy_self ?R) ?X) = Inr (arr [2] [29 / 3, 70 / 3])"
    by code_simp
  have "model (toy_self ?R) = Some (?R, 0)"
    by (simp add: toy_self_def)
  moreover have "K_predict toy_keras (?R, 0) ?X = (Inr ?R, (?R, 1))"
    by (simp add: toy_keras_def)
  moreover have "wf_array ?X" "wf_array ?R" "list_all is_finite (data ?X)"
    "list_all is_finite (data ?R)" "0 \<notin> set (shape ?X)" "0 \<notin> set (shape ?R)"
    by (simp_all add: arr_def wf_array_def)
  ultimately show ?thesis
    using predict_error_nonneg_or_nan [OF disjI1 [OF run], where m = "(?R, 0)"
        and X_rec = ?R and m' = "(?R, 1)"] run
    unfolding list_all_iff by blast
qed

text \<open>
  C4 as stated fails: nothing in \<^verbatim>\<open>predict\<close> guards against NaN. On a batch with one NaN
  entry the score of that sequence is NaN, and \<^verbatim>\<open>NaN >= 0\<close> is false.
\<close>

theorem predict_nan_counterexample:
  "fst (predict toy_keras (toy_self (arr [2, 2, 1] [0, 0, 0, 0]))
          \<lparr>shape = [2, 2, 1], data = [Finite 1, NaN, Finite 3, Finite 4]\<rparr>)
     = Inr \<lparr>shape = [2], data = [NaN, Finite (25 / 2)]\<rparr>
   \<and> \<not> list_all fl_nonneg [NaN, Finite (25 / 2)]"
  by code_simp

text \<open>
  C6: let \<open>W\<close> read the parameters off the library's model object, and let the library's
  forward pass leave the parameters as they are and return a result that depends on the
  parameters and the input only. Then a second call of \<^verbatim>\<open>predict\<close> on the same input
  returns what the first returned, the parameters after the call are those before, and
  no attribute of the instance is assigned: the only thing that may differ afterwards is
  the library's own object behind \<^verbatim>\<open>self.model\<close>.
\<close>

theorem predict_repeatable:
  assumes keep: "\<forall>m x. W (snd (K_predict K m x)) = W m"
      and det: "\<forall>m m' x. W m = W m' \<longrightarrow> fst (K_predict K m x) = fst (K_predict K m' x)"
  shows "fst (predict K (snd (predict K self X)) X) = fst (predict K self X)
       \<and> map_option W (model (snd (predict K self X))) = map_option W (model self)
       \<and> (snd (predict K self X))\<lparr>model := model self\<rparr> = self"
proof (cases "model self")
  case None
  then show ?thesis by (simp add: predict_alt)
next
  case (Some m)
  obtain r m' where k: "K_predict K m X = (r, m')" by (cases "K_predict K m X")
  obtain r2 m2 where k2: "K_predict K m' X = (r2, m2)" by (cases "K_predict K m' X")
  have w: "W m' = W m" using keep [rule_format, of m X] k by simp
  have "r2 = r" using det [rule_format, of m' m X] w k k2 by simp
  with Some k k2 w show ?thesis by (simp add: predict_alt)
qed

theorem predict_repeatable_witness:
  "fst (predict toy_keras
          (snd (predict toy_keras (toy_self (arr [2, 1, 1] [5, 7]))
                  (arr [2, 3, 1] [1, 2, 3, 4, 5, 6])))
          (arr [2, 3, 1] [1, 2, 3, 4, 5, 6]))
   = fst (predict toy_keras (toy_self (arr [2, 1, 1] [5, 7]))
          (arr [2, 3, 1] [1, 2, 3, 4, 5, 6]))"
proof -
  have "\<forall>m x. fst (snd (K_predict toy_keras m x)) = fst m"
    by (simp add: toy_keras_def)
  moreover have "\<forall>m m' x. fst m = fst m' \<longrightarrow> fst (K_predict toy_keras m x) = fst (K_predict toy_keras m' x)"
    by (simp add: toy_keras_def)
  ultimately show ?thesis
    using predict_repeatable [where W = fst and K = toy_keras] by blast
qed

end
